theory Spec2Isabelle
  imports Main "HOL-Library.Sublist"
begin

section \<open>JavaScript values used by the slash-command code\<close>

text \<open>
  The list component computes its highlighted index with JavaScript numbers. The only
  values that occur are integers and \<open>NaN\<close> (the result of \<open>x % 0\<close>), so a number is
  an integer or \<open>NaN\<close>. \<open>+\<close>, \<open>-\<close> and \<open>%\<close> propagate \<open>NaN\<close>; \<open>%\<close> takes the sign
  of the dividend and gives \<open>NaN\<close> for a zero divisor.
\<close>

datatype jsnum = Num int | NaN

fun js_add :: "jsnum \<Rightarrow> jsnum \<Rightarrow> jsnum" where
  "js_add (Num a) (Num b) = Num (a + b)"
| "js_add _ _ = NaN"

fun js_sub :: "jsnum \<Rightarrow> jsnum \<Rightarrow> jsnum" where
  "js_sub (Num a) (Num b) = Num (a - b)"
| "js_sub _ _ = NaN"

fun js_rem :: "jsnum \<Rightarrow> jsnum \<Rightarrow> jsnum" where
  "js_rem (Num a) (Num b) = (if b = 0 then NaN else Num (sgn a * (\<bar>a\<bar> mod \<bar>b\<bar>)))"
| "js_rem _ _ = NaN"

text \<open>
  \<open>xs[i]\<close> on an array: the element when \<open>i\<close> is an integer index inside the array,
  \<open>undefined\<close> (here \<open>None\<close>) for every other number, \<open>NaN\<close> included. Nothing is
  raised.
\<close>

fun js_index :: "'a list \<Rightarrow> jsnum \<Rightarrow> 'a option" where
  "js_index xs (Num i) = (if 0 \<le> i \<and> i < int (length xs) then Some (xs ! nat i) else None)"
| "js_index xs NaN = None"

definition js_length :: "'a list \<Rightarrow> jsnum" where
  "js_length xs = Num (int (length xs))"

text \<open>
  Strings are lists of code units; a \<^typ>\<open>char\<close> stands for a code unit below 256
  (ASCII and the Latin-1 block), where \<open>toLowerCase\<close> works unit by unit: it adds 32 to
  \<open>A\<close>..\<open>Z\<close> and to U+00C0..U+00DE except the multiplication sign U+00D7.
\<close>

definition lower_unit :: "char \<Rightarrow> char" where
  "lower_unit c =
     (let n = (of_char c :: nat)
      in if (65 \<le> n \<and> n \<le> 90) \<or> (192 \<le> n \<and> n \<le> 222 \<and> n \<noteq> 215)
         then char_of (n + 32) else c)"

definition toLowerCase :: "string \<Rightarrow> string" where
  "toLowerCase s = map lower_unit s"

text \<open>\<open>s.startsWith(q)\<close> and \<open>s.includes(q)\<close>, by recursion over the string.\<close>

fun startsWith :: "string \<Rightarrow> string \<Rightarrow> bool" where
  "startsWith s [] = True"
| "startsWith [] (q # qs) = False"
| "startsWith (c # cs) (q # qs) = (c = q \<and> startsWith cs qs)"

fun includes_str :: "string \<Rightarrow> string \<Rightarrow> bool" where
  "includes_str [] q = startsWith [] q"
| "includes_str (c # cs) q = (startsWith (c # cs) q \<or> includes_str cs q)"

section \<open>The command registry (slashCommands.ts)\<close>

text \<open>
  A command receives the editor and the optional range of the suggestion. What it does
  to the editor is a chain of calls ended by \<open>run()\<close>; the model of a command is the
  chain it issues, in order.
\<close>

record Range =
  range_from :: nat
  range_to :: nat

datatype editor_call =
    Focus
  | SetParagraph
  | ToggleHeading nat
  | ToggleBulletList
  | ToggleOrderedList
  | DeleteRange Range
  | SetCallout
  | Run

datatype LucideIcon =
  Pilcrow | Heading1 | Heading2 | Heading3 | ListIcon | ListOrdered | Megaphone

record SlashCommandItem =
  title :: string
  description :: string
  icon :: LucideIcon
  command :: "Range option \<Rightarrow> editor_call list"

definition paragraph_item :: SlashCommandItem where
  "paragraph_item =
     \<lparr>title = ''Paragraph'', description = ''Normal text style'', icon = Pilcrow,
      command = (\<lambda>rng. [Focus, SetParagraph, Run])\<rparr>"

definition heading1_item :: SlashCommandItem where
  "heading1_item =
     \<lparr>title = ''Heading 1'', description = ''Large section heading'', icon = Heading1,
      command = (\<lambda>rng. [Focus, ToggleHeading 1, Run])\<rparr>"

definition heading2_item :: SlashCommandItem where
  "heading2_item =
     \<lparr>title = ''Heading 2'', description = ''Medium section heading'', icon = Heading2,
      command = (\<lambda>rng. [Focus, ToggleHeading 2, Run])\<rparr>"

definition heading3_item :: SlashCommandItem where
  "heading3_item =
     \<lparr>title = ''Heading 3'', description = ''Small section heading'', icon = Heading3,
      command = (\<lambda>rng. [Focus, ToggleHeading 3, Run])\<rparr>"

definition bullet_list_item :: SlashCommandItem where
  "bullet_list_item =
     \<lparr>title = ''Bullet List'', description = ''Create a simple bullet list'',
      icon = ListIcon,
      command = (\<lambda>rng. [Focus, ToggleBulletList, Run])\<rparr>"

definition ordered_list_item :: SlashCommandItem where
  "ordered_list_item =
     \<lparr>title = ''Ordered List'', description = ''Create a list with numbering'',
      icon = ListOrdered,
      command = (\<lambda>rng. [Focus, ToggleOrderedList, Run])\<rparr>"

definition callout_item :: SlashCommandItem where
  "callout_item =
     \<lparr>title = ''Callout'',
      description = ''Create a callout block with icon and background.'',
      icon = Megaphone,
      command = (\<lambda>rng. case rng of
                   Some r \<Rightarrow> [Focus, DeleteRange r, SetCallout, Run]
                 | None \<Rightarrow> [Focus, SetCallout, Run])\<rparr>"

definition slashCommands :: "SlashCommandItem list" where
  "slashCommands =
     [paragraph_item, heading1_item, heading2_item, heading3_item,
      bullet_list_item, ordered_list_item, callout_item]"

section \<open>The suggestion options (SlashCommandExtension.ts)\<close>

text \<open>
  \<open>items({query})\<close>: the registry filtered by the query, cut to ten entries.
  \<^verbatim>\<open>
  slashCommands
    .filter(item =>
      item.title.toLowerCase().startsWith(query.toLowerCase()) ||
      item.description.toLowerCase().includes(query.toLowerCase()))
    .slice(0, 10)
  \<close>
  \<open>filter_items\<close> is the same function with the registry as an argument.
\<close>

definition item_matches :: "string \<Rightarrow> SlashCommandItem \<Rightarrow> bool" where
  "item_matches query item =
     (startsWith (toLowerCase (title item)) (toLowerCase query) \<or>
      includes_str (toLowerCase (description item)) (toLowerCase query))"

definition filter_items :: "SlashCommandItem list \<Rightarrow> string \<Rightarrow> SlashCommandItem list" where
  "filter_items registry query = take 10 (filter (item_matches query) registry)"

definition suggestion_items :: "string \<Rightarrow> SlashCommandItem list" where
  "suggestion_items query = filter_items slashCommands query"

text \<open>\<open>command({editor, range, props})\<close> calls the chosen item's command with the range.\<close>

definition suggestion_command :: "Range \<Rightarrow> SlashCommandItem \<Rightarrow> editor_call list" where
  "suggestion_command rng props = command props (Some rng)"

text \<open>
  The match rule in the words of the specification: the lower-cased query is a prefix of
  the lower-cased title, or occurs as a contiguous substring of the lower-cased
  description.
\<close>

definition spec_matches :: "string \<Rightarrow> SlashCommandItem \<Rightarrow> bool" where
  "spec_matches q item =
     (prefix (toLowerCase q) (toLowerCase (title item)) \<or>
      sublist (toLowerCase q) (toLowerCase (description item)))"

section \<open>The popup list (SlashCommandsList.tsx)\<close>

text \<open>
  The component's state is its \<open>items\<close> prop and the \<open>selectedIndex\<close> of
  \<open>useState(0)\<close>. The \<open>command\<close> prop is the suggestion's callback: the model
  returns the items it was called with, in order.
\<close>

datatype key = ArrowUp | ArrowDown | Enter | Escape | OtherKey string

record list_state =
  items :: "SlashCommandItem list"
  selectedIndex :: jsnum

definition mount :: "SlashCommandItem list \<Rightarrow> list_state" where
  "mount its = \<lparr>items = its, selectedIndex = Num 0\<rparr>"

text \<open>\<open>selectItem(index)\<close>: \<open>const item = items[index]; if (item) command(item)\<close>.\<close>

definition selectItem :: "list_state \<Rightarrow> jsnum \<Rightarrow> SlashCommandItem list" where
  "selectItem s index =
     (case js_index (items s) index of Some item \<Rightarrow> [item] | None \<Rightarrow> [])"

text \<open>
  The handler exposed through the ref: the returned flag (\<open>true\<close>: the key is consumed),
  the state after the state update, and the commands invoked.
  \<^verbatim>\<open>
  if (event.key === 'ArrowUp') {
    setSelectedIndex((prevIndex) => (prevIndex + items.length - 1) % items.length);
    return true; }
  if (event.key === 'ArrowDown') {
    setSelectedIndex((prevIndex) => (prevIndex + 1) % items.length);
    return true; }
  if (event.key === 'Enter') { selectItem(selectedIndex); return true; }
  return false;
  \<close>
\<close>

fun list_onKeyDown :: "key \<Rightarrow> list_state \<Rightarrow> bool \<times> list_state \<times> SlashCommandItem list" where
  "list_onKeyDown ArrowUp s =
     (True,
      s\<lparr>selectedIndex :=
          js_rem (js_sub (js_add (selectedIndex s) (js_length (items s))) (Num 1))
                 (js_length (items s))\<rparr>,
      [])"
| "list_onKeyDown ArrowDown s =
     (True,
      s\<lparr>selectedIndex := js_rem (js_add (selectedIndex s) (Num 1)) (js_length (items s))\<rparr>,
      [])"
| "list_onKeyDown Enter s = (True, s, selectItem s (selectedIndex s))"
| "list_onKeyDown k s = (False, s, [])"

text \<open>
  A props update is two steps of the component. First the render with the new
  \<open>items\<close> array is committed: the list shows the new items, and \<open>selectedIndex\<close> is
  still the state of before. Then, after that render,
  \<^verbatim>\<open>useEffect(() => { setSelectedIndex(0); }, [items])\<close>
  runs, because the array is a new one (the suggestion's \<open>items\<close> builds a new array at
  every call), and sets the index to 0. A render with the same array changes neither
  field and runs no effect: it is no step of the model.
\<close>

definition render_props :: "SlashCommandItem list \<Rightarrow> list_state \<Rightarrow> list_state" where
  "render_props its s = s\<lparr>items := its\<rparr>"

definition items_effect :: "list_state \<Rightarrow> list_state" where
  "items_effect s = s\<lparr>selectedIndex := Num 0\<rparr>"

text \<open>
  What is rendered: nothing (\<open>null\<close>) for an empty list, else one button per item,
  with its title, its description and whether it is the highlighted one.
\<close>

record option_row =
  row_title :: string
  row_description :: string
  aria_selected :: bool

definition list_render :: "list_state \<Rightarrow> option_row list option" where
  "list_render s =
     (if length (items s) = 0 then None
      else Some (map (\<lambda>(index, item).
                  \<lparr>row_title = title item, row_description = description item,
                   aria_selected = (Num (int index) = selectedIndex s)\<rparr>)
                (enumerate 0 (items s))))"

text \<open>The \<open>onClick\<close> of the button at \<open>index\<close>.\<close>

definition list_onClick :: "nat \<Rightarrow> list_state \<Rightarrow> SlashCommandItem list" where
  "list_onClick index s = selectItem s (Num (int index))"

text \<open>
  The component over a sequence of steps, from its mount: the committed render of new
  props, the effect of such a render, a key press, a click. Every state of a run is a
  committed render, so it is what the popup shows.
\<close>

datatype list_event =
  RenderProps "SlashCommandItem list" | ItemsEffect | KeyDown key | Click nat

fun list_step :: "list_event \<Rightarrow> list_state \<Rightarrow> list_state" where
  "list_step (RenderProps its) s = render_props its s"
| "list_step ItemsEffect s = items_effect s"
| "list_step (KeyDown k) s = fst (snd (list_onKeyDown k s))"
| "list_step (Click i) s = s"

definition list_run :: "list_event list \<Rightarrow> list_state \<Rightarrow> list_state" where
  "list_run evs s = fold list_step evs s"



text \<open>The highlighted index is a valid index of the list.\<close>

definition valid_index :: "list_state \<Rightarrow> bool" where
  "valid_index s =
     (case selectedIndex s of
        Num i \<Rightarrow> 0 \<le> i \<and> i < int (length (items s))
      | NaN \<Rightarrow> False)"


section \<open>The popup controller (render() of SlashCommandExtension.ts)\<close>

text \<open>
  \<open>render()\<close> closes over two variables, \<open>component\<close> and \<open>popup\<close>, both undefined
  (\<open>None\<close>) until \<open>onStart\<close> assigns them. Reading a property of an undefined variable
  throws a \<open>TypeError\<close>, which ends the hook. \<open>onStart\<close> returns before it creates the
  popup when the props carry no \<open>clientRect\<close>; \<open>onUpdate\<close> and the Escape branch of
  \<open>onKeyDown\<close> read \<open>popup[0]\<close> without a test; \<open>onExit\<close> tests both variables first.
  A created component is taken as rendered, with its ref set, so that
  \<open>component.ref?.onKeyDown({ event }) ?? false\<close> is the list's handler.
  \<open>component.updateProps(props)\<close> is the committed render of the new props; the effect
  of that render runs after it, as a step of its own (\<open>component_effect\<close>).
  \<^verbatim>\<open>
  onUpdate: (props) => {
    component.updateProps(props);
    if (!props.clientRect) return;
    popup[0].setProps({ getReferenceClientRect: clientRect }); },
  onKeyDown: ({ event }) => {
    if (event.key === 'Escape') { popup[0].hide(); return true; }
    return component.ref?.onKeyDown({ event }) ?? false; },
  onExit: () => {
    if (popup && popup[0]) popup[0].destroy();
    if (component) component.destroy(); }
  \<close>
\<close>

datatype error = TypeError

record DOMRect =
  rect_left :: int
  rect_top :: int

record SuggestionProps =
  props_items :: "SlashCommandItem list"
  clientRect :: "DOMRect option"

record TippyInstance =
  visible :: bool
  referenceRect :: DOMRect
  tippy_destroyed :: bool

record ReactRenderer =
  ref :: list_state
  renderer_destroyed :: bool

record controller =
  component :: "ReactRenderer option"
  popup :: "TippyInstance option"

definition initial_controller :: controller where
  "initial_controller = \<lparr>component = None, popup = None\<rparr>"

definition onStart :: "SuggestionProps \<Rightarrow> controller \<Rightarrow> controller" where
  "onStart props c =
     (let c1 = c\<lparr>component :=
                  Some \<lparr>ref = mount (props_items props), renderer_destroyed = False\<rparr>\<rparr>
      in case clientRect props of
           None \<Rightarrow> c1
         | Some r \<Rightarrow>
             c1\<lparr>popup := Some \<lparr>visible = True, referenceRect = r, tippy_destroyed = False\<rparr>\<rparr>)"

definition onUpdate :: "SuggestionProps \<Rightarrow> controller \<Rightarrow> error + controller" where
  "onUpdate props c =
     (case component c of
        None \<Rightarrow> Inl TypeError
      | Some rend \<Rightarrow>
          (let c1 = c\<lparr>component :=
                       Some (rend\<lparr>ref := render_props (props_items props) (ref rend)\<rparr>)\<rparr>
           in case clientRect props of
                None \<Rightarrow> Inr c1
              | Some r \<Rightarrow>
                  (case popup c1 of
                     None \<Rightarrow> Inl TypeError
                   | Some p \<Rightarrow> Inr (c1\<lparr>popup := Some (p\<lparr>referenceRect := r\<rparr>)\<rparr>))))"


definition onKeyDown ::
  "key \<Rightarrow> controller \<Rightarrow> error + (bool \<times> controller \<times> SlashCommandItem list)" where
  "onKeyDown k c =
     (if k = Escape then
        (case popup c of
           None \<Rightarrow> Inl TypeError
         | Some p \<Rightarrow> Inr (True, c\<lparr>popup := Some (p\<lparr>visible := False\<rparr>)\<rparr>, []))
      else
        (case component c of
           None \<Rightarrow> Inl TypeError
         | Some rend \<Rightarrow>
             (case list_onKeyDown k (ref rend) of
                (handled, s', invoked) \<Rightarrow>
                  Inr (handled, c\<lparr>component := Some (rend\<lparr>ref := s'\<rparr>)\<rparr>, invoked))))"

definition onExit :: "controller \<Rightarrow> controller" where
  "onExit c =
     (let c1 = (case popup c of
                  Some p \<Rightarrow> c\<lparr>popup := Some (p\<lparr>tippy_destroyed := True\<rparr>)\<rparr>
                | None \<Rightarrow> c)
      in case component c1 of
           Some rend \<Rightarrow> c1\<lparr>component := Some (rend\<lparr>renderer_destroyed := True\<rparr>)\<rparr>
         | None \<Rightarrow> c1)"

text \<open>
  The session is alive in the controller as long as nothing of it has been destroyed:
  the hooks of the controller end a session only by \<open>onExit\<close>.
\<close>

definition session_open :: "controller \<Rightarrow> bool" where
  "session_open c =
     (case component c of
        None \<Rightarrow> False
      | Some rend \<Rightarrow>
          \<not> renderer_destroyed rend \<and>
          (case popup c of None \<Rightarrow> True | Some p \<Rightarrow> \<not> tippy_destroyed p))"

section \<open>The text surface and a session over it\<close>

text \<open>
  Modelled from the spec: the text surface is the embedded editor framework, which is
  not part of the repository. The model is one block of text with a caret: typing
  inserts at the caret, \<open>deleteRange\<close> removes the characters from \<open>from\<close> up to
  \<open>to\<close>, and the structural commands set or toggle the type of the block. Offsets
  count characters from the start of the block.
\<close>

datatype block_type = Paragraph | Heading nat | BulletList | OrderedList | Callout

record surface =
  content :: string
  caret :: nat
  block :: block_type
  focused :: bool

definition insertText :: "string \<Rightarrow> surface \<Rightarrow> surface" where
  "insertText t s =
     s\<lparr>content := take (caret s) (content s) @ t @ drop (caret s) (content s),
       caret := caret s + length t\<rparr>"

definition toggle_block :: "block_type \<Rightarrow> surface \<Rightarrow> surface" where
  "toggle_block b s = s\<lparr>block := (if block s = b then Paragraph else b)\<rparr>"

fun editor_call_apply :: "editor_call \<Rightarrow> surface \<Rightarrow> surface" where
  "editor_call_apply Focus s = s\<lparr>focused := True\<rparr>"
| "editor_call_apply SetParagraph s = s\<lparr>block := Paragraph\<rparr>"
| "editor_call_apply (ToggleHeading level) s = toggle_block (Heading level) s"
| "editor_call_apply ToggleBulletList s = toggle_block BulletList s"
| "editor_call_apply ToggleOrderedList s = toggle_block OrderedList s"
| "editor_call_apply (DeleteRange r) s =
     s\<lparr>content := take (range_from r) (content s) @ drop (range_to r) (content s),
       caret := range_from r\<rparr>"
| "editor_call_apply SetCallout s = toggle_block Callout s"
| "editor_call_apply Run s = s"

definition editor_chain :: "editor_call list \<Rightarrow> surface \<Rightarrow> surface" where
  "editor_chain calls s = fold editor_call_apply calls s"

text \<open>
  A key press during a session: the controller's \<open>onKeyDown\<close> decides, and every
  command it invoked runs through the suggestion's \<open>command\<close> callback against the
  surface, with the range of the session.
\<close>

definition commit :: "Range \<Rightarrow> SlashCommandItem list \<Rightarrow> surface \<Rightarrow> surface" where
  "commit rng invoked s = fold (\<lambda>item. editor_chain (suggestion_command rng item)) invoked s"

definition session_keydown ::
  "key \<Rightarrow> Range \<Rightarrow> surface \<times> controller \<Rightarrow> error + (bool \<times> surface \<times> controller)" where
  "session_keydown k rng st =
     (case onKeyDown k (snd st) of
        Inl e \<Rightarrow> Inl e
      | Inr (handled, c', invoked) \<Rightarrow> Inr (handled, commit rng invoked (fst st), c'))"

definition surface_after :: "error + (bool \<times> surface \<times> controller) \<Rightarrow> surface option" where
  "surface_after r = (case r of Inl e \<Rightarrow> None | Inr (handled, s, c) \<Rightarrow> Some s)"

definition empty_surface :: surface where
  "empty_surface = \<lparr>content = [], caret = 0, block = Paragraph, focused = True\<rparr>"

section \<open>Facts about the string functions\<close>

lemma startsWith_prefix: "startsWith s q \<longleftrightarrow> prefix q s"
  by (induction s q rule: startsWith.induct) auto

lemma includes_str_sublist: "includes_str s q \<longleftrightarrow> sublist q s"
  by (induction s q rule: includes_str.induct)
     (auto simp: startsWith_prefix sublist_Cons_right)

lemma toLowerCase_append: "toLowerCase (a @ b) = toLowerCase a @ toLowerCase b"
  by (simp add: toLowerCase_def)

lemma item_matches_spec: "item_matches q item = spec_matches q item"
  by (simp add: item_matches_def spec_matches_def startsWith_prefix includes_str_sublist)

lemma item_matches_empty: "item_matches [] item"
  by (simp add: item_matches_def toLowerCase_def)

lemma item_matches_append: "item_matches (q @ rest) item \<Longrightarrow> item_matches q item"
  unfolding item_matches_spec spec_matches_def toLowerCase_append
  by (meson append_prefixD sublist_appendI sublist_order.dual_order.trans
      sublist_append_rightI)

lemma length_slashCommands: "length slashCommands = 7"
  by (simp add: slashCommands_def)

section \<open>Facts about the popup list\<close>

lemma js_rem_nonneg:
  "0 \<le> a \<Longrightarrow> 0 < n \<Longrightarrow> js_rem (Num a) (Num n) = Num (a mod n)"
  by (cases "a = 0") (simp_all add: sgn_if)

lemma arrow_down_valid:
  assumes "selectedIndex s = Num i" "0 \<le> i" "i < int (length (items s))"
  shows "list_onKeyDown ArrowDown s =
           (True, s\<lparr>selectedIndex := Num ((i + 1) mod int (length (items s)))\<rparr>, [])"
proof -
  have "js_rem (Num (i + 1)) (Num (int (length (items s)))) =
          Num ((i + 1) mod int (length (items s)))"
    by (rule js_rem_nonneg) (use assms in linarith)+
  then have "js_rem (js_add (selectedIndex s) (Num 1)) (js_length (items s)) =
          Num ((i + 1) mod int (length (items s)))"
    by (simp only: assms(1) js_length_def js_add.simps)
  then show ?thesis
    by (simp only: list_onKeyDown.simps)
qed

lemma arrow_up_valid:
  assumes "selectedIndex s = Num i" "0 \<le> i" "i < int (length (items s))"
  shows "list_onKeyDown ArrowUp s =
           (True,
            s\<lparr>selectedIndex :=
                Num ((i - 1 + int (length (items s))) mod int (length (items s)))\<rparr>,
            [])"
proof -
  have "js_rem (Num (i + int (length (items s)) - 1)) (Num (int (length (items s)))) =
          Num ((i + int (length (items s)) - 1) mod int (length (items s)))"
    by (rule js_rem_nonneg) (use assms in linarith)+
  moreover have "i + int (length (items s)) - 1 = i - 1 + int (length (items s))"
    by linarith
  ultimately have
    "js_rem (js_sub (js_add (selectedIndex s) (js_length (items s))) (Num 1))
            (js_length (items s)) =
       Num ((i - 1 + int (length (items s))) mod int (length (items s)))"
    by (simp only: assms(1) js_length_def js_add.simps js_sub.simps)
  then show ?thesis
    by (simp only: list_onKeyDown.simps)
qed







lemma arrow_down_iterate:
  assumes "selectedIndex s = Num i" "0 \<le> i" "i < int (length (items s))"
  shows "list_run (replicate k (KeyDown ArrowDown)) s =
           s\<lparr>selectedIndex := Num ((i + int k) mod int (length (items s)))\<rparr>"
  using assms
proof (induction k arbitrary: s i)
  case 0
  then show ?case by (simp add: list_run_def)
next
  case (Suc k)
  let ?n = "int (length (items s))"
  let ?s' = "s\<lparr>selectedIndex := Num ((i + 1) mod ?n)\<rparr>"
  have step: "list_step (KeyDown ArrowDown) s = ?s'"
    by (simp only: list_step.simps arrow_down_valid [OF Suc.prems] fst_conv snd_conv)
  have n: "0 < ?n" using Suc.prems by linarith
  have "list_run (replicate k (KeyDown ArrowDown)) ?s' =
          ?s'\<lparr>selectedIndex := Num (((i + 1) mod ?n + int k) mod int (length (items ?s')))\<rparr>"
    by (rule Suc.IH) (use n in simp_all)
  moreover have "((i + 1) mod ?n + int k) mod ?n = (i + int (Suc k)) mod ?n"
  proof -
    have "((i + 1) mod ?n + int k) mod ?n = ((i + 1) + int k) mod ?n"
      by (rule mod_add_left_eq)
    also have "(i + 1) + int k = i + int (Suc k)"
      by simp
    finally show ?thesis .
  qed
  ultimately have "list_run (replicate k (KeyDown ArrowDown)) ?s' =
          s\<lparr>selectedIndex := Num ((i + int (Suc k)) mod ?n)\<rparr>"
    by simp
  moreover have "list_run (replicate (Suc k) (KeyDown ArrowDown)) s =
          list_run (replicate k (KeyDown ArrowDown)) (list_step (KeyDown ArrowDown) s)"
    by (simp add: list_run_def)
  ultimately show ?case
    by (simp only: step)
qed

lemma onKeyDown_forward:
  assumes "component c = Some rend" "k \<noteq> Escape"
  shows "onKeyDown k c =
           Inr (fst (list_onKeyDown k (ref rend)),
                c\<lparr>component := Some (rend\<lparr>ref := fst (snd (list_onKeyDown k (ref rend)))\<rparr>)\<rparr>,
                snd (snd (list_onKeyDown k (ref rend))))"
  using assms by (simp add: onKeyDown_def split: prod.splits)

lemma selectItem_empty: "items s = [] \<Longrightarrow> selectItem s idx = []"
  by (cases idx) (simp_all add: selectItem_def)

lemma suggestion_items_append_empty:
  assumes "suggestion_items q = []"
  shows "suggestion_items (q @ rest) = []"
proof -
  have "filter (item_matches q) slashCommands = []"
    using assms by (simp add: suggestion_items_def filter_items_def length_slashCommands)
  then have "\<forall>x \<in> set slashCommands. \<not> item_matches q x"
    by (simp add: filter_empty_conv)
  then have "\<forall>x \<in> set slashCommands. \<not> item_matches (q @ rest) x"
    using item_matches_append by blast
  then have "filter (item_matches (q @ rest)) slashCommands = []"
    by (simp add: filter_empty_conv)
  then show ?thesis
    by (simp add: suggestion_items_def filter_items_def)
qed

section \<open>The candidate filter\<close>

text \<open>
  C1. For every query, the candidate filter returns exactly the registry commands whose
  title starts with the query or whose description contains it (both compared in lower
  case), in registry order, cut to at most ten; the result is a subsequence of the
  registry of length at most ten, and for the empty query it is the first ten registry
  commands in order. The same holds over any registry.
\<close>

theorem suggestion_items_exact:
  "suggestion_items q = take 10 (filter (spec_matches q) slashCommands)
   \<and> filter_items R q = take 10 (filter (spec_matches q) R)
   \<and> subseq (filter_items R q) R
   \<and> length (filter_items R q) \<le> 10
   \<and> list_all (spec_matches q) (filter_items R q)
   \<and> filter_items R [] = take 10 R
   \<and> suggestion_items [] = take 10 slashCommands"
proof -
  have same: "item_matches q = spec_matches q"
    by (rule ext) (simp add: item_matches_spec)
  have all: "filter (item_matches []) xs = xs" for xs
    by (simp add: filter_id_conv item_matches_empty)
  have sub: "subseq (take 10 (filter (spec_matches q) R)) R"
  proof -
    have "subseq (take 10 (filter (spec_matches q) R)) (filter (spec_matches q) R)"
      by (rule sublist_imp_subseq) (rule sublist_take)
    moreover have "subseq (filter (spec_matches q) R) R"
      by (rule subseq_filter_left)
    ultimately show ?thesis
      by (rule subseq_order.trans)
  qed
  have sat: "list_all (spec_matches q) (take 10 (filter (spec_matches q) R))"
    by (auto simp: list_all_iff dest: in_set_takeD)
  show ?thesis
    using sub sat by (simp add: suggestion_items_def filter_items_def same all)
qed

theorem suggestion_items_exact_witness:
  "map title (take 10 (filter (spec_matches ''H'') slashCommands)) =
     [''Heading 1'', ''Heading 2'', ''Heading 3'', ''Ordered List'', ''Callout'']"
proof -
  have "map title (suggestion_items ''H'') =
    [''Heading 1'', ''Heading 2'', ''Heading 3'', ''Ordered List'', ''Callout'']"
    by code_simp
  then show ?thesis
    using suggestion_items_exact [of "''H''" "[]"] by simp
qed

section \<open>Committing a candidate\<close>

text \<open>
  C2. A committed command is meant to delete the recorded range (trigger character
  plus query) and then perform its structural edit. Only the Callout entry does: every
  other entry ignores the range. After typing \<open>/h\<close>, two presses of ArrowDown and
  Enter commit \<open>Heading 3\<close>, whose chain is focus, toggleHeading(3), run, with no
  deleteRange: the block becomes a heading and still reads \<open>/h\<close>. The Callout entry,
  at the same range, issues deleteRange before its edit and leaves the block empty.
\<close>

theorem heading3_commit_keeps_trigger_text:
  "map title (snd (snd (list_onKeyDown Enter
      (list_run [KeyDown ArrowDown, KeyDown ArrowDown] (mount (suggestion_items ''h'')))))) =
     [''Heading 3'']
   \<and> suggestion_command \<lparr>range_from = 0, range_to = 2\<rparr> heading3_item =
       [Focus, ToggleHeading 3, Run]
   \<and> commit \<lparr>range_from = 0, range_to = 2\<rparr> [heading3_item]
        \<lparr>content = ''/h'', caret = 2, block = Paragraph, focused = True\<rparr> =
       \<lparr>content = ''/h'', caret = 2, block = Heading 3, focused = True\<rparr>
   \<and> suggestion_command \<lparr>range_from = 0, range_to = 2\<rparr> callout_item =
       [Focus, DeleteRange \<lparr>range_from = 0, range_to = 2\<rparr>, SetCallout, Run]
   \<and> commit \<lparr>range_from = 0, range_to = 2\<rparr> [callout_item]
        \<lparr>content = ''/h'', caret = 2, block = Paragraph, focused = True\<rparr> =
       \<lparr>content = [], caret = 0, block = Callout, focused = True\<rparr>"
proof -
  have a: "map title (snd (snd (list_onKeyDown Enter
      (list_run [KeyDown ArrowDown, KeyDown ArrowDown] (mount (suggestion_items ''h'')))))) =
     [''Heading 3'']"
    by code_simp
  have b: "suggestion_command \<lparr>range_from = 0, range_to = 2\<rparr> heading3_item =
       [Focus, ToggleHeading 3, Run]"
    by (simp add: suggestion_command_def heading3_item_def)
  have c: "commit \<lparr>range_from = 0, range_to = 2\<rparr> [heading3_item]
        \<lparr>content = ''/h'', caret = 2, block = Paragraph, focused = True\<rparr> =
       \<lparr>content = ''/h'', caret = 2, block = Heading 3, focused = True\<rparr>"
    by (simp add: b commit_def editor_chain_def toggle_block_def)
  have d: "suggestion_command \<lparr>range_from = 0, range_to = 2\<rparr> callout_item =
       [Focus, DeleteRange \<lparr>range_from = 0, range_to = 2\<rparr>, SetCallout, Run]"
    by (simp add: suggestion_command_def callout_item_def)
  have e: "commit \<lparr>range_from = 0, range_to = 2\<rparr> [callout_item]
        \<lparr>content = ''/h'', caret = 2, block = Paragraph, focused = True\<rparr> =
       \<lparr>content = [], caret = 0, block = Callout, focused = True\<rparr>"
    by (simp add: d commit_def editor_chain_def toggle_block_def)
  from a b c d e show ?thesis
    by (intro conjI)
qed

text \<open>
  C10. Committing at an index invokes a command only when the list has an item at that
  index: \<open>selectItem\<close> invokes exactly the item at an integer index inside the list,
  and invokes nothing, without raising, for an index past the end, a negative index or
  \<open>NaN\<close>. Enter commits at the highlighted index and a click at the index of the
  button, both through \<open>selectItem\<close>; Enter is consumed either way.
\<close>

theorem selectItem_only_existing:
  "(selectItem s idx \<noteq> [] \<longrightarrow>
      (\<exists>i. idx = Num i \<and> 0 \<le> i \<and> i < int (length (items s)) \<and>
           selectItem s idx = [items s ! nat i]))
   \<and> (i < length (items s) \<longrightarrow> selectItem s (Num (int i)) = [items s ! i])
   \<and> (length (items s) \<le> i \<longrightarrow> selectItem s (Num (int i)) = [])
   \<and> (j < 0 \<longrightarrow> selectItem s (Num j) = [])
   \<and> selectItem s NaN = []
   \<and> list_onKeyDown Enter s = (True, s, selectItem s (selectedIndex s))
   \<and> list_onClick i s = selectItem s (Num (int i))
   \<and> (component c = Some rend \<and> ref rend = s \<longrightarrow>
        onKeyDown Enter c = Inr (True, c, selectItem s (selectedIndex s)))"
proof -
  have a: "selectItem s idx \<noteq> [] \<longrightarrow>
      (\<exists>i. idx = Num i \<and> 0 \<le> i \<and> i < int (length (items s)) \<and>
           selectItem s idx = [items s ! nat i])"
    by (cases idx) (simp_all add: selectItem_def)
  have b: "i < length (items s) \<longrightarrow> selectItem s (Num (int i)) = [items s ! i]"
    by (simp add: selectItem_def)
  have c: "length (items s) \<le> i \<longrightarrow> selectItem s (Num (int i)) = []"
    by (simp add: selectItem_def)
  have d: "j < 0 \<longrightarrow> selectItem s (Num j) = []"
    by (simp add: selectItem_def)
  have e: "selectItem s NaN = []"
    by (simp add: selectItem_def)
  have f: "component c = Some rend \<and> ref rend = s \<longrightarrow>
        onKeyDown Enter c = Inr (True, c, selectItem s (selectedIndex s))"
    by (auto simp: onKeyDown_forward)
  show ?thesis
    using a b c d e f by (simp add: list_onClick_def)
qed

theorem selectItem_only_existing_witness:
  "map title (selectItem \<lparr>items = suggestion_items ''he'', selectedIndex = Num 0\<rparr> (Num 2)) =
     [''Heading 3'']
   \<and> selectItem \<lparr>items = suggestion_items ''he'', selectedIndex = Num 0\<rparr> (Num 3) = []
   \<and> selectItem \<lparr>items = suggestion_items ''he'', selectedIndex = Num 0\<rparr> (Num (- 1)) = []"
proof -
  have n: "length (suggestion_items ''he'') = 3"
    by code_simp
  have t: "title (suggestion_items ''he'' ! 2) = ''Heading 3''"
    by code_simp
  show ?thesis
    using selectItem_only_existing
        [where s = "\<lparr>items = suggestion_items ''he'', selectedIndex = Num 0\<rparr>"
           and i = 2 and j = "- 1"]
      selectItem_only_existing
        [where s = "\<lparr>items = suggestion_items ''he'', selectedIndex = Num 0\<rparr>"
           and i = 3 and j = "- 1"]
    by (simp add: n t)
qed

section \<open>The highlighted index\<close>




text \<open>
  C5, as the claim states it, fails: the handler has no guard on the length of the
  list. With the empty list of the query \<open>xyz\<close>, ArrowDown and ArrowUp are handled
  and consumed, and the remainder by the length 0 is computed: the index becomes
  \<open>NaN\<close>.
\<close>

theorem arrow_keys_empty_list_counterexample:
  "list_onKeyDown ArrowDown (mount (suggestion_items ''xyz'')) =
     (True, \<lparr>items = [], selectedIndex = NaN\<rparr>, [])
   \<and> list_onKeyDown ArrowUp (mount (suggestion_items ''xyz'')) =
     (True, \<lparr>items = [], selectedIndex = NaN\<rparr>, [])
   \<and> length (items (mount (suggestion_items ''xyz''))) = 0"
proof -
  have e: "suggestion_items ''xyz'' = []"
    by code_simp
  show ?thesis
    by (simp add: e mount_def js_length_def)
qed

text \<open>
  C5, amended. With a valid highlighted index (so the list is not empty), ArrowDown
  sets the index to (index + 1) mod length and ArrowUp to (index - 1 + length) mod
  length, invoking no command. Both keys are consumed whatever the list is, in the list
  and through the controller, which never forwards them to the text surface.
\<close>

theorem arrow_keys_navigate:
  assumes "selectedIndex s = Num i" and "0 \<le> i" and "i < int (length (items s))"
  shows "list_onKeyDown ArrowDown s =
           (True, s\<lparr>selectedIndex := Num ((i + 1) mod int (length (items s)))\<rparr>, [])
       \<and> list_onKeyDown ArrowUp s =
           (True,
            s\<lparr>selectedIndex :=
                Num ((i - 1 + int (length (items s))) mod int (length (items s)))\<rparr>,
            [])
       \<and> fst (list_onKeyDown ArrowDown t) \<and> fst (list_onKeyDown ArrowUp t)
       \<and> (component c = Some rend \<longrightarrow>
             map_sum id fst (onKeyDown ArrowDown c) = Inr True \<and>
             map_sum id fst (onKeyDown ArrowUp c) = Inr True)"
proof -
  have "list_onKeyDown ArrowDown s =
           (True, s\<lparr>selectedIndex := Num ((i + 1) mod int (length (items s)))\<rparr>, [])"
    using assms by (rule arrow_down_valid)
  moreover have "list_onKeyDown ArrowUp s =
           (True,
            s\<lparr>selectedIndex :=
                Num ((i - 1 + int (length (items s))) mod int (length (items s)))\<rparr>,
            [])"
    using assms by (rule arrow_up_valid)
  moreover have "fst (list_onKeyDown ArrowDown t) \<and> fst (list_onKeyDown ArrowUp t)"
    by simp
  moreover have "map_sum id fst (onKeyDown ArrowDown c) = Inr True \<and>
        map_sum id fst (onKeyDown ArrowUp c) = Inr True"
    if "component c = Some rend"
    using that by (simp add: onKeyDown_forward)
  ultimately show ?thesis
    by blast
qed

theorem arrow_keys_navigate_witness:
  "list_onKeyDown ArrowDown \<lparr>items = suggestion_items ''he'', selectedIndex = Num 2\<rparr> =
     (True, \<lparr>items = suggestion_items ''he'', selectedIndex = Num 0\<rparr>, [])
   \<and> list_onKeyDown ArrowUp \<lparr>items = suggestion_items ''he'', selectedIndex = Num 2\<rparr> =
     (True, \<lparr>items = suggestion_items ''he'', selectedIndex = Num 1\<rparr>, [])
   \<and> map_sum id fst (onKeyDown ArrowDown
         (onStart \<lparr>props_items = suggestion_items ''he'', clientRect = None\<rparr>
            initial_controller)) = Inr True"
proof -
  have n: "length (suggestion_items ''he'') = 3"
    by code_simp
  have c: "component (onStart \<lparr>props_items = suggestion_items ''he'', clientRect = None\<rparr>
            initial_controller) =
           Some \<lparr>ref = mount (suggestion_items ''he''), renderer_destroyed = False\<rparr>"
    by (simp add: onStart_def)
  show ?thesis
    using arrow_keys_navigate
      [where s = "\<lparr>items = suggestion_items ''he'', selectedIndex = Num 2\<rparr>"
         and i = 2
         and c = "onStart \<lparr>props_items = suggestion_items ''he'', clientRect = None\<rparr>
            initial_controller"
         and rend = "\<lparr>ref = mount (suggestion_items ''he''), renderer_destroyed = False\<rparr>"]
      c
    by (simp add: n)
qed

text \<open>
  C6. For a list that is not empty and a valid highlighted index, pressing ArrowDown as
  many times as the list has items gives back the starting state: the index wraps
  around.
\<close>

theorem arrow_down_wraps_around:
  assumes "items s \<noteq> []" and "valid_index s"
  shows "list_run (replicate (length (items s)) (KeyDown ArrowDown)) s = s"
proof -
  from assms(2) obtain i where
    i: "selectedIndex s = Num i" "0 \<le> i" "i < int (length (items s))"
    by (auto simp: valid_index_def split: jsnum.splits)
  have "list_run (replicate (length (items s)) (KeyDown ArrowDown)) s =
          s\<lparr>selectedIndex := Num ((i + int (length (items s))) mod int (length (items s)))\<rparr>"
    using i by (rule arrow_down_iterate)
  moreover have "(i + int (length (items s))) mod int (length (items s)) = i"
    using i by simp
  ultimately show ?thesis
    using i(1) by simp
qed

theorem arrow_down_wraps_around_witness:
  "list_run (replicate 3 (KeyDown ArrowDown))
     \<lparr>items = suggestion_items ''he'', selectedIndex = Num 1\<rparr> =
   \<lparr>items = suggestion_items ''he'', selectedIndex = Num 1\<rparr>"
proof -
  have n: "length (suggestion_items ''he'') = 3"
    by code_simp
  then have ne: "suggestion_items ''he'' \<noteq> []"
    by auto
  show ?thesis
    using arrow_down_wraps_around
      [of "\<lparr>items = suggestion_items ''he'', selectedIndex = Num 1\<rparr>"] n ne
    by (simp add: valid_index_def)
qed

section \<open>The empty candidate list\<close>

text \<open>
  C7. With an empty candidate list, Enter invokes no command, is consumed (the handler
  returns true, so the key is not forwarded to the text surface), raises nothing, and
  leaves the list, the controller and the text surface as they were.
\<close>

theorem enter_on_empty_list_is_noop:
  assumes "items s = []"
  shows "list_onKeyDown Enter s = (True, s, [])
       \<and> (component c = Some rend \<and> ref rend = s \<longrightarrow> onKeyDown Enter c = Inr (True, c, []))
       \<and> (component c = Some rend \<and> ref rend = s \<longrightarrow>
            session_keydown Enter rng (surf, c) = Inr (True, surf, c))"
proof -
  have l: "list_onKeyDown Enter s = (True, s, [])"
    using assms by (simp add: selectItem_empty)
  have k: "onKeyDown Enter c = Inr (True, c, [])" if "component c = Some rend" "ref rend = s"
    using that l by (simp add: onKeyDown_forward [OF that(1)])
  have "session_keydown Enter rng (surf, c) = Inr (True, surf, c)"
    if "component c = Some rend" "ref rend = s"
    using k [OF that] by (simp add: session_keydown_def commit_def)
  with l k show ?thesis
    by blast
qed

theorem enter_on_empty_list_is_noop_witness:
  "list_onKeyDown Enter (mount (suggestion_items ''xyz'')) =
     (True, mount (suggestion_items ''xyz''), [])
   \<and> onKeyDown Enter
        (onStart \<lparr>props_items = suggestion_items ''xyz'', clientRect = None\<rparr>
           initial_controller) =
      Inr (True,
           onStart \<lparr>props_items = suggestion_items ''xyz'', clientRect = None\<rparr>
             initial_controller,
           [])"
proof -
  have e: "items (mount (suggestion_items ''xyz'')) = []"
    by code_simp
  have c: "component (onStart \<lparr>props_items = suggestion_items ''xyz'', clientRect = None\<rparr>
            initial_controller) =
           Some \<lparr>ref = mount (suggestion_items ''xyz''), renderer_destroyed = False\<rparr>"
    by (simp add: onStart_def)
  show ?thesis
    using enter_on_empty_list_is_noop
      [OF e,
       where c = "onStart \<lparr>props_items = suggestion_items ''xyz'', clientRect = None\<rparr>
            initial_controller"
         and rend = "\<lparr>ref = mount (suggestion_items ''xyz''), renderer_destroyed = False\<rparr>"]
      c
    by simp
qed

text \<open>
  C4. When the query matches nothing, every longer query matches nothing either. In a
  session that is open, with a popup to reposition or no caret rectangle in the update,
  the update with the empty list succeeds and destroys nothing: the session stays open,
  the list renders nothing, and Enter is consumed without invoking a command or changing
  the controller or the text surface.
\<close>

theorem empty_candidates_keep_session_open:
  assumes "suggestion_items q = []"
    and "session_open c"
    and "clientRect props = None \<or> popup c \<noteq> None"
    and "props_items props = suggestion_items (q @ rest)"
  shows "suggestion_items (q @ rest) = []
       \<and> (\<exists>c' rend. onUpdate props c = Inr c' \<and> session_open c'
             \<and> component c' = Some rend \<and> items (ref rend) = []
             \<and> list_render (ref rend) = None
             \<and> onKeyDown Enter c' = Inr (True, c', [])
             \<and> session_keydown Enter rng (surf, c') = Inr (True, surf, c'))"
proof -
  have e: "suggestion_items (q @ rest) = []"
    using assms(1) by (rule suggestion_items_append_empty)
  from assms(2) obtain r0 where r0: "component c = Some r0" "\<not> renderer_destroyed r0"
    by (auto simp: session_open_def split: option.splits)
  define r1 where "r1 = r0\<lparr>ref := render_props [] (ref r0)\<rparr>"
  define c1 where "c1 = c\<lparr>component := Some r1\<rparr>"
  have it: "items (ref r1) = []"
    by (simp add: r1_def render_props_def)
  have rn: "list_render (ref r1) = None"
    using it by (simp add: list_render_def)
  show ?thesis
  proof (cases "clientRect props")
    case None
    have u: "onUpdate props c = Inr c1"
      using None r0 by (simp add: onUpdate_def assms(4) e c1_def r1_def)
    have so: "session_open c1"
      using assms(2) r0 by (simp add: session_open_def c1_def r1_def)
    have cc: "component c1 = Some r1"
      by (simp add: c1_def)
    have en: "onKeyDown Enter c1 = Inr (True, c1, [])"
      using it cc by (simp add: onKeyDown_forward [OF cc] selectItem_empty)
    have "session_keydown Enter rng (surf, c1) = Inr (True, surf, c1)"
      using en by (simp add: session_keydown_def commit_def)
    with e u so cc it rn en show ?thesis
      by blast
  next
    case (Some r)
    with assms(3) obtain p where p: "popup c = Some p"
      by auto
    define c2 where "c2 = c1\<lparr>popup := Some (p\<lparr>referenceRect := r\<rparr>)\<rparr>"
    have u: "onUpdate props c = Inr c2"
      using Some r0 p by (simp add: onUpdate_def assms(4) e c1_def c2_def r1_def)
    have so: "session_open c2"
      using assms(2) r0 p by (simp add: session_open_def c1_def c2_def r1_def)
    have cc: "component c2 = Some r1"
      by (simp add: c1_def c2_def)
    have en: "onKeyDown Enter c2 = Inr (True, c2, [])"
      using it cc by (simp add: onKeyDown_forward [OF cc] selectItem_empty)
    have "session_keydown Enter rng (surf, c2) = Inr (True, surf, c2)"
      using en by (simp add: session_keydown_def commit_def)
    with e u so cc it rn en show ?thesis
      by blast
  qed
qed

theorem empty_candidates_keep_session_open_witness:
  "suggestion_items ''xyz'' = []
   \<and> session_open (onStart \<lparr>props_items = suggestion_items '''',
          clientRect = Some \<lparr>rect_left = 10, rect_top = 20\<rparr>\<rparr> initial_controller)
   \<and> suggestion_items (''xyz'' @ ''w'') = []
   \<and> (\<exists>c' rend.
         onUpdate \<lparr>props_items = suggestion_items (''xyz'' @ ''w''),
                   clientRect = Some \<lparr>rect_left = 12, rect_top = 20\<rparr>\<rparr>
           (onStart \<lparr>props_items = suggestion_items '''',
              clientRect = Some \<lparr>rect_left = 10, rect_top = 20\<rparr>\<rparr> initial_controller) = Inr c'
         \<and> session_open c' \<and> component c' = Some rend \<and> items (ref rend) = []
         \<and> list_render (ref rend) = None
         \<and> onKeyDown Enter c' = Inr (True, c', [])
         \<and> session_keydown Enter \<lparr>range_from = 0, range_to = 5\<rparr> (empty_surface, c') =
             Inr (True, empty_surface, c'))"
proof -
  let ?c = "onStart \<lparr>props_items = suggestion_items '''',
          clientRect = Some \<lparr>rect_left = 10, rect_top = 20\<rparr>\<rparr> initial_controller"
  let ?props = "\<lparr>props_items = suggestion_items (''xyz'' @ ''w''),
                   clientRect = Some \<lparr>rect_left = 12, rect_top = 20\<rparr>\<rparr>"
  have e: "suggestion_items ''xyz'' = []"
    by code_simp
  have so: "session_open ?c"
    by (simp add: onStart_def session_open_def)
  have p: "clientRect ?props = None \<or> popup ?c \<noteq> None"
    by (simp add: onStart_def)
  have i: "props_items ?props = suggestion_items (''xyz'' @ ''w'')"
    by simp
  show ?thesis
    using e so
      empty_candidates_keep_session_open [OF e so p i,
        where rng = "\<lparr>range_from = 0, range_to = 5\<rparr>" and surf = empty_surface]
    by blast
qed

section \<open>Escape\<close>

text \<open>
  C8, as the claim states it, fails: Escape does not touch the text surface, so the
  trigger character stays. Typing \<open>/\<close> into the empty surface and pressing Escape
  leaves the content \<open>/\<close> and the caret at 1, not the empty content and the caret
  at 0 of before the trigger character.
\<close>

theorem escape_keeps_typed_text_counterexample:
  "surface_after
     (session_keydown Escape \<lparr>range_from = 0, range_to = 1\<rparr>
        (insertText ''/'' empty_surface,
         onStart \<lparr>props_items = suggestion_items '''',
                   clientRect = Some \<lparr>rect_left = 10, rect_top = 20\<rparr>\<rparr>
           initial_controller)) =
     Some \<lparr>content = ''/'', caret = 1, block = Paragraph, focused = True\<rparr>
   \<and> content empty_surface = []
   \<and> caret empty_surface = 0"
  by (simp add: surface_after_def session_keydown_def onKeyDown_def onStart_def
      commit_def insertText_def empty_surface_def initial_controller_def)

text \<open>
  C8, amended. With a popup, the Escape key press invokes no command and leaves the
  text surface, content and caret, exactly as it was when Escape was pressed: the
  trigger character and the query typed so far stay, with the caret after them.
\<close>

theorem escape_invokes_nothing_keeps_surface:
  assumes "popup c = Some p"
  shows "map_sum id (snd \<circ> snd) (onKeyDown Escape c) = Inr []
       \<and> surface_after (session_keydown Escape rng (surf, c)) = Some surf"
  using assms by (simp add: onKeyDown_def session_keydown_def commit_def surface_after_def)

theorem escape_invokes_nothing_keeps_surface_witness:
  "map_sum id (snd \<circ> snd)
     (onKeyDown Escape
        (onStart \<lparr>props_items = suggestion_items '''',
                  clientRect = Some \<lparr>rect_left = 10, rect_top = 20\<rparr>\<rparr>
           initial_controller)) = Inr []
   \<and> surface_after
        (session_keydown Escape \<lparr>range_from = 0, range_to = 1\<rparr>
           (insertText ''/'' empty_surface,
            onStart \<lparr>props_items = suggestion_items '''',
                      clientRect = Some \<lparr>rect_left = 10, rect_top = 20\<rparr>\<rparr>
              initial_controller)) =
       Some (insertText ''/'' empty_surface)"
proof -
  have p: "popup (onStart \<lparr>props_items = suggestion_items '''',
                  clientRect = Some \<lparr>rect_left = 10, rect_top = 20\<rparr>\<rparr>
           initial_controller) =
      Some \<lparr>visible = True, referenceRect = \<lparr>rect_left = 10, rect_top = 20\<rparr>,
            tippy_destroyed = False\<rparr>"
    by (simp add: onStart_def)
  show ?thesis
    using escape_invokes_nothing_keeps_surface [OF p,
        where rng = "\<lparr>range_from = 0, range_to = 1\<rparr>"
          and surf = "insertText ''/'' empty_surface"]
    by blast
qed

section \<open>A missing caret rectangle\<close>

text \<open>
  C9. A session that starts without a caret rectangle creates the list but no popup,
  and stays open. The next update that has a rectangle does not create the popup: it
  reads \<open>popup[0]\<close> of the undefined variable and throws a TypeError, and so does
  Escape. \<open>onExit\<close>, which tests the variable first, succeeds on the same state.
\<close>

theorem update_after_start_without_rect_throws:
  "onUpdate \<lparr>props_items = its', clientRect = Some r\<rparr>
     (onStart \<lparr>props_items = its, clientRect = None\<rparr> initial_controller) = Inl TypeError
   \<and> onKeyDown Escape (onStart \<lparr>props_items = its, clientRect = None\<rparr> initial_controller) =
       Inl TypeError
   \<and> popup (onStart \<lparr>props_items = its, clientRect = None\<rparr> initial_controller) = None
   \<and> session_open (onStart \<lparr>props_items = its, clientRect = None\<rparr> initial_controller)
   \<and> onExit (onStart \<lparr>props_items = its, clientRect = None\<rparr> initial_controller) =
       \<lparr>component = Some \<lparr>ref = mount its, renderer_destroyed = True\<rparr>, popup = None\<rparr>"
  by (simp add: onUpdate_def onKeyDown_def onStart_def onExit_def initial_controller_def
      session_open_def)

end
